theory Spec2Isabelle
  imports Main "HOL-Library.Char_ord" "HOL-Library.List_Lexorder"
begin

section \<open>Text\<close>

text \<open>
  A Python \<open>str\<close> is modelled as a \<open>string\<close>: one \<open>char\<close> per code point, for the
  code points 0 to 255 (what a latin-1 read produces, and every UTF-8 read within that
  range). The character classes below are the interpreter's for these code points:
  \<open>\s\<close> and \<open>str.strip\<close> (white space), \<open>\w\<close> (word characters), \<open>\d\<close> (decimal digits) and
  \<open>str.lower\<close>, which maps one character to one character here.
\<close>

definition cp :: "char \<Rightarrow> nat" where
  "cp c = of_char c"

definition is_space :: "char \<Rightarrow> bool" where
  "is_space c = (let n = cp c in
     (9 \<le> n \<and> n \<le> 13) \<or> (28 \<le> n \<and> n \<le> 32) \<or> n = 133 \<or> n = 160)"

definition is_digit :: "char \<Rightarrow> bool" where
  "is_digit c = (let n = cp c in 48 \<le> n \<and> n \<le> 57)"

definition is_word :: "char \<Rightarrow> bool" where
  "is_word c = (let n = cp c in
     (48 \<le> n \<and> n \<le> 57) \<or> (65 \<le> n \<and> n \<le> 90) \<or> n = 95 \<or> (97 \<le> n \<and> n \<le> 122) \<or>
     n = 170 \<or> n = 178 \<or> n = 179 \<or> n = 181 \<or> n = 185 \<or> n = 186 \<or>
     (188 \<le> n \<and> n \<le> 190) \<or> (192 \<le> n \<and> n \<le> 214) \<or> (216 \<le> n \<and> n \<le> 246) \<or>
     (248 \<le> n \<and> n \<le> 255))"

definition lower_char :: "char \<Rightarrow> char" where
  "lower_char c = (let n = cp c in
     if (65 \<le> n \<and> n \<le> 90) \<or> (192 \<le> n \<and> n \<le> 222 \<and> n \<noteq> 215)
     then char_of (n + 32) else c)"

definition lower :: "string \<Rightarrow> string" where
  "lower s = map lower_char s"

text \<open>\<open>s.endswith(suf)\<close> and \<open>sub in s\<close>.\<close>

definition endswith :: "string \<Rightarrow> string \<Rightarrow> bool" where
  "endswith s suf = (length suf \<le> length s \<and> drop (length s - length suf) s = suf)"

definition startswith :: "string \<Rightarrow> string \<Rightarrow> bool" where
  "startswith s pre = (take (length pre) s = pre)"

fun contains :: "string \<Rightarrow> string \<Rightarrow> bool" where
  "contains sub [] = (sub = [])"
| "contains sub (c # cs) = (startswith (c # cs) sub \<or> contains sub cs)"

text \<open>\<open>s.strip()\<close>.\<close>

definition strip :: "string \<Rightarrow> string" where
  "strip s = rev (dropWhile is_space (rev (dropWhile is_space s)))"

text \<open>
  \<open>re.sub(r"\s+", " ", text)\<close>: every maximal run of white space becomes one space. The
  flag says that the previous character was white space (the run is already replaced).
\<close>

fun sub_ws :: "bool \<Rightarrow> string \<Rightarrow> string" where
  "sub_ws prev [] = []"
| "sub_ws prev (c # cs) =
     (if is_space c then (if prev then sub_ws True cs else CHR '' '' # sub_ws True cs)
      else c # sub_ws False cs)"

definition compact_text :: "string \<Rightarrow> string" where
  "compact_text text = (if text = [] then [] else strip (sub_ws False text))"

definition endswith_jpg :: "string option \<Rightarrow> bool" where
  "endswith_jpg v = (case v of None \<Rightarrow> False | Some s \<Rightarrow> s \<noteq> [] \<and> endswith s ''.jpg'')"

subsection \<open>\<open>int(s)\<close> on a string\<close>

text \<open>
  \<open>int\<close> accepts white space around an optional sign and decimal digits, with single
  underscores between digits; anything else raises \<open>ValueError\<close>, which is \<open>None\<close> here.
  The white space \<open>int\<close> strips is narrower than that of \<open>str.strip\<close> (no code points 28
  to 31). The interpreter's limit on the number of digits is not modelled.
\<close>

definition is_int_space :: "char \<Rightarrow> bool" where
  "is_int_space c = (let n = cp c in (9 \<le> n \<and> n \<le> 13) \<or> n = 32 \<or> n = 133 \<or> n = 160)"

definition digit_val :: "char \<Rightarrow> nat" where
  "digit_val c = cp c - 48"

fun parse_digits :: "nat \<Rightarrow> string \<Rightarrow> nat option" where
  "parse_digits acc [] = Some acc"
| "parse_digits acc (c # cs) =
     (if is_digit c then parse_digits (10 * acc + digit_val c) cs
      else if c = CHR ''_'' then
        (case cs of
           [] \<Rightarrow> None
         | d # ds \<Rightarrow> if is_digit d then parse_digits (10 * acc + digit_val d) ds else None)
      else None)"

definition parse_nat :: "string \<Rightarrow> nat option" where
  "parse_nat s = (case s of
     [] \<Rightarrow> None
   | c # cs \<Rightarrow> if is_digit c then parse_digits (digit_val c) cs else None)"

definition py_int :: "string \<Rightarrow> int option" where
  "py_int s =
     (let t = rev (dropWhile is_int_space (rev (dropWhile is_int_space s))) in
      case t of
        [] \<Rightarrow> None
      | c # r \<Rightarrow>
          if c = CHR ''+'' then map_option int (parse_nat r)
          else if c = CHR ''-'' then map_option (\<lambda>n. - int n) (parse_nat r)
          else map_option int (parse_nat t))"

section \<open>The document tree\<close>

text \<open>
  What the parser hands to the program: a tree of elements (tag name, attributes,
  children), text nodes, and the other string nodes (comments and the like), which are
  neither tags nor part of \<open>get_text\<close>. Attributes form a dictionary; the association
  list is read with \<open>map_of\<close>.
\<close>

datatype node =
    Text string
  | Comment string
  | Elem string "(string \<times> string) list" "node list"

fun is_tag :: "string \<Rightarrow> node \<Rightarrow> bool" where
  "is_tag name (Elem t _ _) = (t = name)"
| "is_tag name _ = False"

fun attr :: "node \<Rightarrow> string \<Rightarrow> string option" where
  "attr (Elem _ as _) k = map_of as k"
| "attr _ k = None"

fun children :: "node \<Rightarrow> node list" where
  "children (Elem _ _ kids) = kids"
| "children _ = []"

text \<open>
  A node in its place: its previous siblings (nearest first, the order of
  \<open>previous_siblings\<close>), the node, and its next siblings (the order of \<open>next_siblings\<close>).
\<close>

type_synonym loc = "node list \<times> node \<times> node list"

text \<open>
  \<open>located prev ns\<close> lists, in document order, every node of the sibling list \<open>ns\<close> and
  every node below one, each in its place; \<open>prev\<close> holds the siblings already passed.
\<close>

fun located :: "node list \<Rightarrow> node list \<Rightarrow> loc list" where
  "located prev [] = []"
| "located prev (n # rest) =
     (prev, n, rest) #
     (case n of Elem _ _ kids \<Rightarrow> located [] kids | _ \<Rightarrow> []) @
     located (n # prev) rest"

definition descendants_loc :: "node \<Rightarrow> loc list" where
  "descendants_loc n = located [] (children n)"

definition descendants :: "node \<Rightarrow> node list" where
  "descendants n = map (\<lambda>l. fst (snd l)) (descendants_loc n)"

text \<open>\<open>tag.find_all(name)\<close>, with and without the places, and \<open>tag.find(...)\<close>.\<close>

definition find_all_loc :: "string \<Rightarrow> node \<Rightarrow> loc list" where
  "find_all_loc name n = filter (\<lambda>l. is_tag name (fst (snd l))) (descendants_loc n)"

definition find_all :: "string \<Rightarrow> node \<Rightarrow> node list" where
  "find_all name n = filter (is_tag name) (descendants n)"

definition find_first :: "(node \<Rightarrow> bool) \<Rightarrow> node \<Rightarrow> node option" where
  "find_first p n = List.find p (descendants n)"

text \<open>
  \<open>tag.get_text(" ", strip=True)\<close>: the text nodes below the tag in document order, each
  stripped, the empty ones dropped, joined by one space.
\<close>

fun join_sp :: "string list \<Rightarrow> string" where
  "join_sp [] = []"
| "join_sp [s] = s"
| "join_sp (s # t # ss) = s @ '' '' @ join_sp (t # ss)"

fun text_of :: "node \<Rightarrow> string option" where
  "text_of (Text s) = Some s"
| "text_of _ = None"

definition get_text :: "node \<Rightarrow> string" where
  "get_text n =
     join_sp (filter (\<lambda>s. s \<noteq> []) (map strip (List.map_filter text_of (descendants n))))"

section \<open>Table classification and the stage label\<close>

definition STAGE_KEYWORDS :: "string list" where
  "STAGE_KEYWORDS =
    [''male'', ''female'', ''chicks'', ''juvenile'', ''immature'', ''immatures'',
     ''subadult'', ''sub-adult'', ''nest'', ''nymph'', ''egg'', ''eggs'', ''adult'',
     ''macho'', ''hembra'', ''pichon'', ''pichones'', ''juvenil'', ''inmaduro'', ''inmaduros'',
     ''subadulto'', ''nido'', ''ninfa'', ''huevo'', ''huevos'', ''adulto'', ''adultos'']"

definition looks_like_stage_table :: "node \<Rightarrow> bool" where
  "looks_like_stage_table tbl =
     (if \<not> is_tag ''table'' tbl then False
      else
        let t = compact_text (get_text tbl); t_lower = lower t in
        if \<not> list_ex (\<lambda>kw. contains kw t_lower) STAGE_KEYWORDS then False
        else if list_ex is_digit t then False
        else if length t > 120 then False
        else True)"

definition border_val :: "node \<Rightarrow> int" where
  "border_val tbl =
     (case py_int (case attr tbl ''border'' of None \<Rightarrow> ''0'' | Some v \<Rightarrow> v) of
        None \<Rightarrow> 0
      | Some b \<Rightarrow> b)"

definition is_jpg_img :: "node \<Rightarrow> bool" where
  "is_jpg_img n = (is_tag ''img'' n \<and>
     (case attr n ''src'' of None \<Rightarrow> False | Some s \<Rightarrow> s \<noteq> [] \<and> endswith_jpg (Some s)))"

definition is_big_image_table :: "node \<Rightarrow> bool" where
  "is_big_image_table tbl =
     (if \<not> is_tag ''table'' tbl then False
      else if attr tbl ''width'' \<noteq> Some ''800'' then False
      else if border_val tbl < 6 then False
      else find_first is_jpg_img tbl \<noteq> None)"

text \<open>
  The loop of \<open>find_stage_tag_near_table\<close> over \<open>previous_siblings\<close>; \<open>count\<close> is the
  number of tables examined so far.
\<close>

fun stage_lookback :: "nat \<Rightarrow> nat \<Rightarrow> node list \<Rightarrow> string" where
  "stage_lookback max_lookback_tables count [] = []"
| "stage_lookback max_lookback_tables count (sib # sibs) =
     (if \<not> is_tag ''table'' sib then stage_lookback max_lookback_tables count sibs
      else if is_big_image_table sib then []
      else if looks_like_stage_table sib then compact_text (get_text sib)
      else if Suc count \<ge> max_lookback_tables then []
      else stage_lookback max_lookback_tables (Suc count) sibs)"

definition find_stage_tag_near_table :: "loc \<Rightarrow> nat \<Rightarrow> string" where
  "find_stage_tag_near_table start_tbl max_lookback_tables =
     stage_lookback max_lookback_tables 0 (fst start_tbl)"

section \<open>Regular expressions\<close>

text \<open>
  The fragment of \<open>re\<close> the program's patterns are written in, all compiled with
  \<open>re.IGNORECASE\<close>: literals, character sets (\<open>\s\<close>, \<open>\w\<close> and single characters), the word
  boundary \<open>\b\<close>, sequence, alternation, \<open>?\<close> on a group and \<open>*\<close> on a character set (the
  patterns star nothing else). No pattern has a back reference, so whether \<open>search\<close>
  succeeds does not depend on the order in which the engine backtracks.
\<close>

datatype citem = CSpace | CWord | CChar char

datatype rx =
    Eps
  | Lit char
  | In "citem list"
  | Bnd
  | Seq rx rx
  | Alt rx rx
  | Opt rx
  | StarIn "citem list"

fun item_match :: "citem \<Rightarrow> char \<Rightarrow> bool" where
  "item_match CSpace c = is_space c"
| "item_match CWord c = is_word c"
| "item_match (CChar k) c = (lower_char c = lower_char k)"

definition in_set :: "citem list \<Rightarrow> char \<Rightarrow> bool" where
  "in_set cs c = list_ex (\<lambda>it. item_match it c) cs"

text \<open>\<open>\b\<close> at position \<open>i\<close> (from 0 to the length of the text): exactly one of the characters
  before and after the position is a word character.\<close>

definition at_boundary :: "string \<Rightarrow> nat \<Rightarrow> bool" where
  "at_boundary t i =
     ((0 < i \<and> i \<le> length t \<and> is_word (t ! (i - 1))) \<noteq> (i < length t \<and> is_word (t ! i)))"

text \<open>
  \<open>ends r t i\<close>: the positions where a match of \<open>r\<close> that starts at position \<open>i\<close> of \<open>t\<close> can
  end, in the order the engine tries them (greedy: the longest run of a star first, a
  group before its absence).
\<close>

fun ends :: "rx \<Rightarrow> string \<Rightarrow> nat \<Rightarrow> nat list" where
  "ends Eps t i = [i]"
| "ends (Lit c) t i = (if i < length t \<and> lower_char (t ! i) = lower_char c then [Suc i] else [])"
| "ends (In cs) t i = (if i < length t \<and> in_set cs (t ! i) then [Suc i] else [])"
| "ends Bnd t i = (if at_boundary t i then [i] else [])"
| "ends (Seq a b) t i = concat (map (ends b t) (ends a t i))"
| "ends (Alt a b) t i = ends a t i @ ends b t i"
| "ends (Opt a) t i = ends a t i @ [i]"
| "ends (StarIn cs) t i =
     rev (map (\<lambda>k. i + k) [0 ..< Suc (length (takeWhile (in_set cs) (drop i t)))])"

definition search :: "rx \<Rightarrow> string \<Rightarrow> bool" where
  "search r t = list_ex (\<lambda>i. ends r t i \<noteq> []) [0 ..< Suc (length t)]"

text \<open>Writing patterns: a literal word, and a sequence of parts.\<close>

definition word :: "string \<Rightarrow> rx" where
  "word s = foldr (\<lambda>c r. Seq (Lit c) r) s Eps"

definition cat :: "rx list \<Rightarrow> rx" where
  "cat rs = foldr Seq rs Eps"

definition sep :: rx where
  "sep = StarIn [CSpace, CChar (CHR ''-'')]"

section \<open>Conservation status\<close>

definition CATEGORY_LABELS :: "string list" where
  "CATEGORY_LABELS = [''Near-threatened'', ''Vulnerable'', ''Endangered'', ''Critically Endangered'']"

text \<open>The dictionary in its insertion order, which is the order \<open>items()\<close> iterates in.\<close>

definition THREAT_VARIANTS :: "(string \<times> rx list) list" where
  "THREAT_VARIANTS =
    [(''Near-threatened'',
       [cat [Bnd, word ''near'', sep, word ''threaten'', Alt (word ''ed'') (word ''ned''), Bnd],
        cat [Bnd, word ''nearth'', sep, word ''threat'',
             Alt (Seq (word ''en'') (Opt (word ''ed''))) (Alt (word ''ed'') (word ''ned'')), Bnd],
        cat [Bnd, word ''near'', sep, word ''threated'', Bnd],
        cat [Bnd, word ''near'', sep, word ''threat'', StarIn [CWord], Bnd],
        cat [Bnd, word ''casi'', sep, word ''amenazad'',
             In [CChar (CHR ''a''), CChar (CHR ''o'')], Opt (word ''s''), Bnd]]),
     (''Vulnerable'',
       [cat [Bnd, word ''vulnerabl'', Alt (word ''e'') (word ''e''), Bnd],
        cat [Bnd, word ''vulnerable'', Bnd]]),
     (''Endangered'',
       [cat [Bnd, word ''endanger'', Alt (word ''ed'') (word ''d''), Bnd],
        cat [Bnd, word ''endangered'', Bnd],
        cat [Bnd, word ''en'', sep, word ''peligro'', Bnd]]),
     (''Critically Endangered'',
       [cat [Bnd, word ''critical'', Opt (word ''ly''), sep, word ''endanger'',
             Alt (word ''ed'') (word ''d''), Bnd],
        cat [Bnd, word ''critically'', sep, word ''endangered'', Bnd],
        cat [Bnd, word ''cirtical'', Opt (word ''ly''), sep, word ''endager'',
             Alt (word ''ed'') (word ''d''), Bnd],
        cat [Bnd, word ''cirtically'', sep, word ''endagered'', Bnd],
        cat [Bnd, word ''en'', sep, word ''peligro'', sep, word ''critico'', Bnd]])]"

text \<open>
  The nested loops of \<open>_match_threat_in_text\<close> return at the first category, in dictionary
  order, one of whose patterns is found in the text.
\<close>

definition match_threat_in_text :: "string \<Rightarrow> string" where
  "match_threat_in_text text =
     (case List.find (\<lambda>(canonical, patterns). list_ex (\<lambda>pat. search pat text) patterns)
             THREAT_VARIANTS of
        None \<Rightarrow> []
      | Some (canonical, patterns) \<Rightarrow> canonical)"

text \<open>
  \<open>_find_status_in_table\<close>: the first row with a cell that holds only the mark, and with a
  label in its rightmost cell or, failing that, in the whole row. The empty string is
  the source's "nothing found".
\<close>

definition is_marker_cell :: "node \<Rightarrow> bool" where
  "is_marker_cell td =
     (let td_text = compact_text (get_text td) in
      lower td_text = ''x'' \<or> lower td_text = [CHR 0xD7])"

definition row_status :: "node \<Rightarrow> string" where
  "row_status tr =
     (let tds = find_all ''td'' tr in
      if tds = [] then []
      else if \<not> list_ex is_marker_cell tds then []
      else
        let right_text = compact_text (get_text (last tds));
            label = match_threat_in_text right_text in
        if label \<noteq> [] then label
        else
          let row_text = compact_text (get_text tr) in
          match_threat_in_text row_text)"

fun first_nonempty :: "('a \<Rightarrow> string) \<Rightarrow> 'a list \<Rightarrow> string" where
  "first_nonempty f [] = []"
| "first_nonempty f (x # xs) = (let v = f x in if v \<noteq> [] then v else first_nonempty f xs)"

definition find_status_in_table :: "node \<Rightarrow> string" where
  "find_status_in_table table =
     (if \<not> is_tag ''table'' table then []
      else first_nonempty row_status (find_all ''tr'' table))"

text \<open>
  The loop of \<open>find_threat_status\<close> over the next siblings of a header table: the first
  status found among at most four sibling tables.
\<close>

fun sibling_status :: "nat \<Rightarrow> node list \<Rightarrow> string" where
  "sibling_status sib_count [] = []"
| "sibling_status sib_count (sib # sibs) =
     (if \<not> is_tag ''table'' sib then sibling_status sib_count sibs
      else
        let status = find_status_in_table sib in
        if status \<noteq> [] then status
        else if Suc sib_count \<ge> 4 then []
        else sibling_status (Suc sib_count) sibs)"

text \<open>The pattern \<open>pat.pattern + r"\s*[:\-]?\s*[xX\<times>]"\<close> of the fallback.\<close>

definition marked :: "rx \<Rightarrow> rx" where
  "marked pat =
     Seq pat (cat [StarIn [CSpace], Opt (In [CChar (CHR '':''), CChar (CHR ''-'')]),
                   StarIn [CSpace],
                   In [CChar (CHR ''x''), CChar (CHR ''X''), CChar (CHR 0xD7)]])"

definition marked_label :: "string \<Rightarrow> string" where
  "marked_label table_text_original =
     (case List.find (\<lambda>(canonical, patterns).
                list_ex (\<lambda>pat. search (marked pat) table_text_original) patterns)
             THREAT_VARIANTS of
        None \<Rightarrow> []
      | Some (canonical, patterns) \<Rightarrow> canonical)"

text \<open>
  What one iteration of the first loop of \<open>find_threat_status\<close> returns for a table, the
  empty string when the loop goes on to the next table.
\<close>

definition header_status :: "loc \<Rightarrow> string" where
  "header_status l =
     (let table = fst (snd l);
          table_text_original = get_text table;
          table_text = lower (compact_text table_text_original) in
      if \<not> contains ''globally threatened species'' table_text then []
      else
        let direct = find_status_in_table table in
        if direct \<noteq> [] then direct
        else
          let status = sibling_status 0 (snd (snd l)) in
          if status \<noteq> [] then status
          else marked_label table_text_original)"

definition find_threat_status :: "node \<Rightarrow> string" where
  "find_threat_status soup =
     (let tables = find_all_loc ''table'' soup;
          status = first_nonempty header_status tables in
      if status \<noteq> [] then status
      else first_nonempty (\<lambda>l. find_status_in_table (fst (snd l))) tables)"

section \<open>Photo blocks\<close>

text \<open>The loop of \<open>find_following_800_text_tables\<close> over \<open>next_siblings\<close>.\<close>

fun following_texts :: "nat \<Rightarrow> string list \<Rightarrow> node list \<Rightarrow> string list" where
  "following_texts max_tables results [] = results"
| "following_texts max_tables results (sib # sibs) =
     (if \<not> is_tag ''table'' sib then following_texts max_tables results sibs
      else
        let hit = (attr sib ''width'' = Some ''800'' \<and> attr sib ''border'' = Some ''1'');
            results' = (if hit then results @ [compact_text (get_text sib)] else results) in
        if hit \<and> length results' \<ge> max_tables then results'
        else if is_big_image_table sib then results'
        else following_texts max_tables results' sibs)"

definition find_following_800_text_tables :: "loc \<Rightarrow> nat \<Rightarrow> string list" where
  "find_following_800_text_tables start_tbl max_tables =
     following_texts max_tables [] (snd (snd start_tbl))"

definition has_attr :: "string \<Rightarrow> string \<Rightarrow> node \<Rightarrow> bool" where
  "has_attr name k n = (is_tag name n \<and> attr n k \<noteq> None)"

definition extract_first_img_and_anchor :: "node \<Rightarrow> string option \<times> string option" where
  "extract_first_img_and_anchor table =
     (let fallback =
            (case find_first (has_attr ''img'' ''src'') table of
               None \<Rightarrow> (None, None)
             | Some img_tag \<Rightarrow>
                 if endswith_jpg (attr img_tag ''src'') then (attr img_tag ''src'', None)
                 else (None, None)) in
      case find_first (has_attr ''a'' ''href'') table of
        None \<Rightarrow> fallback
      | Some a_tag \<Rightarrow>
          (case find_first (has_attr ''img'' ''src'') a_tag of
             None \<Rightarrow> fallback
           | Some img_tag \<Rightarrow>
               if endswith_jpg (attr img_tag ''src'')
               then (attr img_tag ''src'',
                     if endswith_jpg (attr a_tag ''href'') then attr a_tag ''href'' else None)
               else fallback))"

text \<open>
  A row of a parser is a dictionary from column names to strings. \<open>large or ""\<close> is
  \<open>or_empty\<close>; a thumbnail that is \<open>None\<close> or empty is falsy.
\<close>

type_synonym row = "string \<rightharpoonup> string"

definition or_empty :: "string option \<Rightarrow> string" where
  "or_empty v = (case v of None \<Rightarrow> [] | Some s \<Rightarrow> s)"

definition truthy :: "string option \<Rightarrow> bool" where
  "truthy v = (case v of None \<Rightarrow> False | Some s \<Rightarrow> s \<noteq> [])"

definition big_row :: "loc \<Rightarrow> row list" where
  "big_row tbl =
     (if \<not> is_big_image_table (fst (snd tbl)) then []
      else
        let (thumb, large) = extract_first_img_and_anchor (fst (snd tbl)) in
        if \<not> truthy thumb then []
        else
          let follow_texts = find_following_800_text_tables tbl 2;
              camera = (if length follow_texts \<ge> 1 then follow_texts ! 0 else []);
              location = (if length follow_texts \<ge> 2 then follow_texts ! 1 else []);
              stage_label = find_stage_tag_near_table tbl 3 in
          [[''Is_Small_ffn_gif'' \<mapsto> [],
            ''Thumbnail_File'' \<mapsto> or_empty thumb,
            ''Large_File'' \<mapsto> or_empty large,
            ''Camera_Equipment'' \<mapsto> camera,
            ''Location_Date'' \<mapsto> location,
            ''Sex_Age'' \<mapsto> stage_label]])"

definition parse_big_blocks :: "node \<Rightarrow> row list" where
  "parse_big_blocks soup = concat (map big_row (find_all_loc ''table'' soup))"

section \<open>Small thumbnails\<close>

definition is_ffn_cell :: "node \<Rightarrow> bool" where
  "is_ffn_cell tag = (is_tag ''td'' tag \<and>
     (case attr tag ''background'' of None \<Rightarrow> False | Some bg \<Rightarrow> bg \<noteq> [] \<and> contains ''ffn.gif'' bg))"

definition colspan :: "node \<Rightarrow> nat" where
  "colspan td =
     (let colspan_val = attr td ''colspan'';
          n = (if truthy colspan_val
               then (case py_int (or_empty colspan_val) of None \<Rightarrow> 1 | Some k \<Rightarrow> k)
               else 1) in
      nat (max 1 n))"

definition expanded_texts :: "node list \<Rightarrow> string list" where
  "expanded_texts tds =
     concat (map (\<lambda>td. replicate (colspan td) (compact_text (get_text td))) tds)"

definition combine :: "string \<Rightarrow> string \<Rightarrow> string" where
  "combine prev cur =
     (if prev \<noteq> [] \<and> cur \<noteq> [] then prev @ '' '' @ cur
      else if prev \<noteq> [] then prev else cur)"

definition text_row_update :: "string list \<Rightarrow> string list \<Rightarrow> string list" where
  "text_row_update last_text_by_column expanded =
     (if list_ex (\<lambda>txt. txt \<noteq> []) expanded then
        if last_text_by_column \<noteq> [] \<and> length last_text_by_column = length expanded
        then map (\<lambda>(prev, cur). combine prev cur) (zip last_text_by_column expanded)
        else expanded
      else [])"

text \<open>The loop over the cells of a row with thumbnails; the pointer is the column reached.\<close>

fun ffn_cells_rows :: "string list \<Rightarrow> string \<Rightarrow> nat \<Rightarrow> node list \<Rightarrow> row list" where
  "ffn_cells_rows last_text_by_column stage col_index_pointer [] = []"
| "ffn_cells_rows last_text_by_column stage col_index_pointer (td # tds) =
     (let bg = or_empty (attr td ''background'');
          new =
            (if contains ''ffn.gif'' bg then
               let a_tag = find_first (has_attr ''a'' ''href'') td;
                   img_tag = find_first (has_attr ''img'' ''src'') td;
                   thumb = (case img_tag of
                              None \<Rightarrow> None
                            | Some i \<Rightarrow> if endswith_jpg (attr i ''src'') then attr i ''src'' else None);
                   large = (case a_tag of
                              None \<Rightarrow> None
                            | Some a \<Rightarrow> if endswith_jpg (attr a ''href'') then attr a ''href'' else None) in
               if truthy thumb then
                 let per_cell_text =
                       (if col_index_pointer < length last_text_by_column
                        then last_text_by_column ! col_index_pointer else []) in
                 [[''Is_Small_ffn_gif'' \<mapsto> ''Y'',
                   ''Thumbnail_File'' \<mapsto> or_empty thumb,
                   ''Large_File'' \<mapsto> or_empty large,
                   ''Camera_Equipment'' \<mapsto> [],
                   ''Location_Date'' \<mapsto> per_cell_text,
                   ''Sex_Age'' \<mapsto> stage]]
               else []
             else [])
      in new @ ffn_cells_rows last_text_by_column stage (col_index_pointer + colspan td) tds)"

text \<open>The loop over the rows of a table, carrying \<open>last_text_by_column\<close>.\<close>

fun ffn_table_rows :: "string list \<Rightarrow> string \<Rightarrow> node list \<Rightarrow> row list" where
  "ffn_table_rows last_text_by_column stage [] = []"
| "ffn_table_rows last_text_by_column stage (tr # trs) =
     (let tds = find_all ''td'' tr;
          has_ffn = list_ex is_ffn_cell tds in
      if \<not> has_ffn
      then ffn_table_rows (text_row_update last_text_by_column (expanded_texts tds)) stage trs
      else ffn_cells_rows last_text_by_column stage 0 tds @
           ffn_table_rows last_text_by_column stage trs)"

definition small_rows :: "loc \<Rightarrow> row list" where
  "small_rows tbl =
     (let ffn_cells = filter is_ffn_cell (descendants (fst (snd tbl))) in
      if ffn_cells = [] then []
      else ffn_table_rows [] (find_stage_tag_near_table tbl 3) (find_all ''tr'' (fst (snd tbl))))"

definition parse_small_ffn_tables :: "node \<Rightarrow> row list" where
  "parse_small_ffn_tables soup = concat (map small_rows (find_all_loc ''table'' soup))"

section \<open>Reading and parsing a file\<close>

text \<open>
  What \<open>open\<close> and \<open>read\<close> do to a file under an encoding: they return its text, or
  raise \<open>UnicodeDecodeError\<close>, or raise another exception. A file of the folder is its
  path and these two outcomes. What the program prints is a list of messages, each
  with the values its text is formatted from.
\<close>

datatype read_outcome = Content string | UnicodeDecodeError | OtherException

record source_file =
  path :: string
  as_utf8 :: read_outcome
  as_latin1 :: read_outcome

datatype message =
    NoMatchingFiles
  | Found nat
  | Processing string string
  | ErrorReading string
  | NoImageRecords
  | Wrote nat string
  | ExcelStructure

definition read_html_file :: "source_file \<Rightarrow> string option \<times> message list" where
  "read_html_file f =
     (case as_utf8 f of
        Content s \<Rightarrow> (Some s, [])
      | UnicodeDecodeError \<Rightarrow>
          (case as_latin1 f of
             Content s \<Rightarrow> (Some s, [])
           | _ \<Rightarrow> (None, [ErrorReading (path f)]))
      | OtherException \<Rightarrow> (None, [ErrorReading (path f)]))"

text \<open>
  \<open>parse_file\<close>. The HTML parser (\<open>BeautifulSoup(html, "lxml")\<close>) is a parameter: any
  function from the text to a document tree.
\<close>

definition parse_file :: "(string \<Rightarrow> node) \<Rightarrow> source_file \<Rightarrow> row list \<times> message list" where
  "parse_file parser f =
     (case read_html_file f of
        (None, out) \<Rightarrow> ([], out)
      | (Some html, out) \<Rightarrow>
          let soup = parser html;
              threat = find_threat_status soup;
              rows_big = parse_big_blocks soup;
              rows_small = parse_small_ffn_tables soup;
              all_rows = rows_big @ rows_small in
          (map (\<lambda>r. r(''Threat_Status'' \<mapsto> threat)) all_rows, out))"

section \<open>The run\<close>

text \<open>Paths, as \<open>os.path\<close> treats them with the separator \<open>/\<close>.\<close>

definition basename :: "string \<Rightarrow> string" where
  "basename p = rev (takeWhile (\<lambda>c. c \<noteq> CHR ''/'') (rev p))"

definition rstrip_sep :: "string \<Rightarrow> string" where
  "rstrip_sep p = rev (dropWhile (\<lambda>c. c = CHR ''/'') (rev p))"

definition path_join :: "string \<Rightarrow> string \<Rightarrow> string" where
  "path_join a b =
     (if startswith b ''/'' then b
      else if a = [] \<or> endswith a ''/'' then a @ b
      else a @ ''/'' @ b)"

text \<open>
  \<open>os.path.splitext(filename)[0]\<close> for a name without a separator: the name up to its
  last dot, or the whole name when it has no dot or only dots before the last one.
\<close>

definition splitext_root :: "string \<Rightarrow> string" where
  "splitext_root p =
     (let ext = takeWhile (\<lambda>c. c \<noteq> CHR ''.'') (rev p) in
      if length ext = length p then p
      else
        let root = take (length p - length ext - 1) p in
        if list_all (\<lambda>c. c = CHR ''.'') root then p else root)"

definition get_current_folder_name :: "string \<Rightarrow> string" where
  "get_current_folder_name cwd =
     (let b = basename (rstrip_sep cwd) in if b \<noteq> [] then b else ''Image_Listing'')"

definition COLUMNS :: "string list" where
  "COLUMNS =
    [''Species_ID'', ''Slug'', ''Subspecies_ID'', ''Slide'', ''Cover'', ''Thumbnail_Filename'',
     ''Large_Filename'', ''Equipment'', ''Sex_Age'', ''Location'', ''Province'', ''Country'',
     ''Date'', ''Location_Date'', ''Threat_Status'']"

text \<open>\<open>r.get(k, "")\<close> and the record \<open>r_out\<close> of \<open>main\<close>.\<close>

definition get_or_empty :: "row \<Rightarrow> string \<Rightarrow> string" where
  "get_or_empty r k = (case r k of None \<Rightarrow> [] | Some v \<Rightarrow> v)"

definition r_out :: "string \<Rightarrow> row \<Rightarrow> row" where
  "r_out species r =
     [''Species_ID'' \<mapsto> [],
      ''Slug'' \<mapsto> species,
      ''Subspecies_ID'' \<mapsto> [],
      ''Slide'' \<mapsto> get_or_empty r ''Is_Small_ffn_gif'',
      ''Cover'' \<mapsto> [],
      ''Thumbnail_Filename'' \<mapsto> get_or_empty r ''Thumbnail_File'',
      ''Large_Filename'' \<mapsto> get_or_empty r ''Large_File'',
      ''Equipment'' \<mapsto> get_or_empty r ''Camera_Equipment'',
      ''Sex_Age'' \<mapsto> get_or_empty r ''Sex_Age'',
      ''Location'' \<mapsto> [],
      ''Province'' \<mapsto> [],
      ''Country'' \<mapsto> [],
      ''Date'' \<mapsto> [],
      ''Location_Date'' \<mapsto> get_or_empty r ''Location_Date'',
      ''Threat_Status'' \<mapsto> get_or_empty r ''Threat_Status'']"

text \<open>
  One iteration of the loop of \<open>main\<close> over the files: the records the file adds and
  what is printed. \<open>base.split("Fotos_", 1)[1]\<close> of a \<open>base\<close> that starts with \<open>Fotos_\<close> is
  the rest of \<open>base\<close>.
\<close>

definition keep_jpg :: "row list \<Rightarrow> row list" where
  "keep_jpg rows = filter (\<lambda>r. endswith_jpg (r ''Thumbnail_File'')) rows"

definition file_records :: "(string \<Rightarrow> node) \<Rightarrow> source_file \<Rightarrow> row list \<times> message list" where
  "file_records parser f =
     (let filename = basename (path f);
          base = splitext_root filename in
      if \<not> startswith base ''Fotos_'' then ([], [])
      else
        let species = drop (length ''Fotos_'') base;
            (rows, out) = parse_file parser f in
        (map (r_out species) (keep_jpg rows), Processing filename species # out))"

definition main_records :: "(string \<Rightarrow> node) \<Rightarrow> source_file list \<Rightarrow> row list" where
  "main_records parser files =
     concat (map (\<lambda>f. fst (file_records parser f)) (sort_key path files))"

text \<open>
  The worksheet: the value of the cell at a row and a column, both counted from 1, and
  \<open>None\<close> where the sheet has no cell. \<open>insert_cols\<close> and \<open>insert_rows\<close> are the worksheet's,
  moving the cells at and beyond the index by one.
\<close>

type_synonym sheet = "nat \<times> nat \<Rightarrow> string option"

text \<open>
  \<open>DataFrame.to_excel\<close> with \<open>index=False, startrow=0\<close> and the \<open>openpyxl\<close> engine. It
  raises \<open>ValueError\<close> for a frame of more than \<open>2^20\<close> rows or \<open>2^14\<close> columns. Otherwise it
  writes the column names into row 1 and the records below, from column 1. The
  worksheet cuts a string it is given to its first 32767 characters and raises
  \<open>IllegalCharacterError\<close> when what is left holds a control character (code points 0 to
  8, 11, 12 and 14 to 31). The result is the error or the sheet written. How the workbook
  stores an empty string or a text that starts with \<open>=\<close> is not described.
\<close>

datatype excel_error = SheetTooLarge | IllegalCharacterError

definition is_illegal_char :: "char \<Rightarrow> bool" where
  "is_illegal_char c = (let n = cp c in n \<le> 8 \<or> n = 11 \<or> n = 12 \<or> (14 \<le> n \<and> n \<le> 31))"

definition stored :: "string \<Rightarrow> string" where
  "stored s = take 32767 s"

definition bad_value :: "string option \<Rightarrow> bool" where
  "bad_value v = (case v of None \<Rightarrow> False | Some s \<Rightarrow> list_ex is_illegal_char (stored s))"

definition to_excel :: "string list \<Rightarrow> row list \<Rightarrow> excel_error + sheet" where
  "to_excel columns records =
     (if 1048576 < length records \<or> 16384 < length columns then Inl SheetTooLarge
      else if list_ex (\<lambda>c. bad_value (Some c)) columns \<or>
              list_ex (list_ex bad_value) (map (\<lambda>r. map r columns) records)
      then Inl IllegalCharacterError
      else Inr (\<lambda>(r, c).
        if c = 0 \<or> length columns < c then None
        else if r = 1 then Some (stored (columns ! (c - 1)))
        else if 2 \<le> r \<and> r - 2 < length records
        then map_option stored ((records ! (r - 2)) (columns ! (c - 1)))
        else None))"

definition insert_cols :: "nat \<Rightarrow> sheet \<Rightarrow> sheet" where
  "insert_cols idx ws = (\<lambda>(r, c).
     if c < idx then ws (r, c) else if c = idx then None else ws (r, c - 1))"

definition insert_rows :: "nat \<Rightarrow> sheet \<Rightarrow> sheet" where
  "insert_rows idx ws = (\<lambda>(r, c).
     if r < idx then ws (r, c) else if r = idx then None else ws (r - 1, c))"

text \<open>
  What a run leaves behind: its exit code, what it printed, and the workbook it wrote,
  if any (the path, the name of the sheet and the sheet). \<open>main\<close> catches nothing, so
  an exception of \<open>to_excel\<close> ends the run: the interpreter exits with code 1, and the
  two last messages are not printed. What such a run leaves at the path is not
  described; its \<open>workbook\<close> is \<open>None\<close>.
\<close>

record run =
  exit_code :: int
  printed :: "message list"
  workbook :: "(string \<times> string \<times> sheet) option"

definition main :: "(string \<Rightarrow> node) \<Rightarrow> string \<Rightarrow> source_file list \<Rightarrow> run" where
  "main parser cwd files =
     (let folder_name = get_current_folder_name cwd in
      if files = [] then \<lparr>exit_code = 0, printed = [NoMatchingFiles], workbook = None\<rparr>
      else
        let out = Found (length files) #
                  concat (map (\<lambda>f. snd (file_records parser f)) (sort_key path files));
            records = main_records parser files in
        if records = [] then \<lparr>exit_code = 0, printed = out @ [NoImageRecords], workbook = None\<rparr>
        else
          let out_name = folder_name @ ''_Image_Listing.xlsx'';
              out_path = path_join cwd out_name in
          case to_excel COLUMNS records of
            Inl e \<Rightarrow> \<lparr>exit_code = 1, printed = out, workbook = None\<rparr>
          | Inr written \<Rightarrow>
              let worksheet = insert_rows 1 (insert_cols 1 written) in
              \<lparr>exit_code = 0,
               printed = out @ [Wrote (length records) out_path, ExcelStructure],
               workbook = Some (out_path, ''Images'', worksheet)\<rparr>)"

section \<open>The specification's big image block, and sample documents\<close>

text \<open>
  The specification's reading of a big image block: a table "identified by fixed
  width/border attributes". This is the attribute test alone, as the code makes it
  (width \<open>800\<close>, border of at least 6), without the code's further condition.
\<close>

definition has_block_attributes :: "node \<Rightarrow> bool" where
  "has_block_attributes tbl =
     (is_tag ''table'' tbl \<and> attr tbl ''width'' = Some ''800'' \<and> 6 \<le> border_val tbl)"

text \<open>Sample tables: a stage header, a caption, a photo frame, and a frame with no photo.\<close>

definition stage_tbl :: node where
  "stage_tbl = Elem ''table'' [] [Elem ''tr'' [] [Elem ''td'' [] [Text '' Male '']]]"

definition caption_tbl :: node where
  "caption_tbl = Elem ''table'' [] [Elem ''tr'' [] [Elem ''td'' [] [Text ''Photo 12'']]]"

definition big_tbl :: node where
  "big_tbl =
     Elem ''table'' [(''width'', ''800''), (''border'', ''9'')]
       [Elem ''tr'' []
          [Elem ''td'' []
             [Elem ''a'' [(''href'', ''big1.jpg'')] [Elem ''img'' [(''src'', ''th1.jpg'')] []]]]]"

definition empty_frame :: node where
  "empty_frame =
     Elem ''table'' [(''width'', ''800''), (''border'', ''9'')]
       [Elem ''tr'' [] [Elem ''td'' [] [Text ''no photo'']]]"

text \<open>A sample gallery page, a stand-in for the parser, and a sample folder.\<close>

definition camera_tbl :: node where
  "camera_tbl =
     Elem ''table'' [(''width'', ''800''), (''border'', ''1'')]
       [Elem ''tr'' [] [Elem ''td'' [] [Text ''Canon EOS'']]]"

definition place_tbl :: node where
  "place_tbl =
     Elem ''table'' [(''width'', ''800''), (''border'', ''1'')]
       [Elem ''tr'' [] [Elem ''td'' [] [Text ''Chubut  2010'']]]"

definition status_tbl :: node where
  "status_tbl =
     Elem ''table'' []
       [Elem ''tr'' [] [Elem ''td'' [] [Text ''Globally threatened species'']],
        Elem ''tr'' [] [Elem ''td'' [] [Text ''X''], Elem ''td'' [] [Text ''Vulnerable'']]]"

definition thumbs_tbl :: node where
  "thumbs_tbl =
     Elem ''table'' []
       [Elem ''tr'' [] [Elem ''td'' [] [Text ''Salta''], Elem ''td'' [] [Text ''Jujuy'']],
        Elem ''tr'' []
          [Elem ''td'' [(''background'', ''../ffn.gif'')]
             [Elem ''a'' [(''href'', ''b2.jpg'')] [Elem ''img'' [(''src'', ''t2.jpg'')] []]],
           Elem ''td'' [(''background'', ''../ffn.gif'')]
             [Elem ''img'' [(''src'', ''t3.gif'')] []]]]"

definition sample_soup :: node where
  "sample_soup =
     Elem ''[document]'' []
       [Elem ''body'' []
          [stage_tbl, Text '' '', big_tbl, camera_tbl, place_tbl, status_tbl, thumbs_tbl]]"

definition plain_soup :: node where
  "plain_soup = Elem ''[document]'' [] [Elem ''body'' [] [caption_tbl, Text ''nothing here'']]"

definition sample_parser :: "string \<Rightarrow> node" where
  "sample_parser html = (if html = ''gallery'' then sample_soup else plain_soup)"

definition gallery_file :: source_file where
  "gallery_file =
     \<lparr>path = ''/photos/Gruiformes/Fotos_Aramus.html'',
      as_utf8 = UnicodeDecodeError, as_latin1 = Content ''gallery''\<rparr>"

definition plain_file :: source_file where
  "plain_file =
     \<lparr>path = ''/photos/Gruiformes/Fotos_Zzz.html'',
      as_utf8 = Content ''plain'', as_latin1 = Content ''plain''\<rparr>"

definition broken_file :: source_file where
  "broken_file =
     \<lparr>path = ''/photos/Gruiformes/Fotos_Broken.html'',
      as_utf8 = OtherException, as_latin1 = Content ''gallery''\<rparr>"

definition sample_files :: "source_file list" where
  "sample_files = [plain_file, gallery_file, broken_file]"

text \<open>A page whose camera text holds the control character with code point 1.\<close>

definition control_soup :: node where
  "control_soup =
     Elem ''[document]'' []
       [Elem ''body'' []
          [big_tbl,
           Elem ''table'' [(''width'', ''800''), (''border'', ''1'')]
             [Elem ''tr'' [] [Elem ''td'' [] [Text [CHR ''C'', CHR 0x01, CHR ''E'']]]]]]"

definition control_file :: source_file where
  "control_file =
     \<lparr>path = ''/photos/Gruiformes/Fotos_Ctl.html'',
      as_utf8 = Content ''control'', as_latin1 = Content ''control''\<rparr>"

definition control_parser :: "string \<Rightarrow> node" where
  "control_parser html = (if html = ''control'' then control_soup else plain_soup)"

section \<open>Big image blocks (C4)\<close>

lemma is_jpg_img_iff:
  "is_jpg_img n \<longleftrightarrow>
     (\<exists>ias ikids s. n = Elem ''img'' ias ikids \<and> map_of ias ''src'' = Some s \<and>
        endswith s ''.jpg'')"
  by (cases n) (auto simp: is_jpg_img_def endswith_jpg_def endswith_def split: option.splits)

lemma find_first_iff: "find_first p n \<noteq> None \<longleftrightarrow> (\<exists>x \<in> set (descendants n). p x)"
  by (auto simp: find_first_def find_None_iff)

text \<open>
  C4, as stated, fails: a table with the identifying width and border attributes and no
  \<open>.jpg\<close> image below it is not classified as a big image block.
\<close>

theorem C4_attributes_alone_counterexample:
  "has_block_attributes empty_frame \<and> \<not> is_big_image_table empty_frame"
  by code_simp

text \<open>
  C4, amended: \<open>is_big_image_table\<close> holds exactly for a \<open>table\<close> element whose width
  attribute is \<open>800\<close>, whose border attribute reads as an integer of at least 6 (an absent
  or unreadable border counts as 0), and which has below it an \<open>img\<close> element whose \<open>src\<close>
  ends in \<open>.jpg\<close>.
\<close>

theorem C4_is_big_image_table_iff:
  "is_big_image_table tbl \<longleftrightarrow>
     (\<exists>as kids. tbl = Elem ''table'' as kids \<and> map_of as ''width'' = Some ''800'' \<and>
        6 \<le> border_val tbl \<and>
        (\<exists>img \<in> set (descendants tbl). \<exists>ias ikids s.
            img = Elem ''img'' ias ikids \<and> map_of ias ''src'' = Some s \<and>
            endswith s ''.jpg''))"
proof (cases tbl)
  case (Elem t as kids)
  then show ?thesis
    unfolding is_big_image_table_def find_first_iff is_jpg_img_iff by auto
qed (simp_all add: is_big_image_table_def)

theorem C4_is_big_image_table_iff_witness:
  "is_big_image_table big_tbl \<and> border_val big_tbl = 9 \<and>
   (\<exists>img \<in> set (descendants big_tbl). \<exists>ias ikids s.
       img = Elem ''img'' ias ikids \<and> map_of ias ''src'' = Some s \<and> endswith s ''.jpg'')"
proof -
  have e: "is_big_image_table big_tbl \<and> border_val big_tbl = 9"
    by code_simp
  with C4_is_big_image_table_iff [of big_tbl] show ?thesis
    by blast
qed

section \<open>The stage label (C2)\<close>

lemma stage_lookback_take:
  "count < m \<Longrightarrow>
   stage_lookback m count sibs =
     (case List.find looks_like_stage_table
             (take (m - count)
                (takeWhile (\<lambda>s. \<not> is_big_image_table s) (filter (is_tag ''table'') sibs))) of
        None \<Rightarrow> []
      | Some s \<Rightarrow> compact_text (get_text s))"
proof (induction sibs arbitrary: count)
  case Nil
  then show ?case by simp
next
  case (Cons sib sibs)
  show ?case
  proof (cases "is_tag ''table'' sib \<and> \<not> is_big_image_table sib \<and> \<not> looks_like_stage_table sib")
    case examined: True
    show ?thesis
    proof (cases "Suc count < m")
      case True
      then have "m - count = Suc (m - Suc count)" by simp
      with Cons.IH [OF True] examined True show ?thesis by simp
    next
      case False
      with Cons.prems have "m - count = Suc 0" by simp
      with False examined show ?thesis by simp
    qed
  next
    case False
    with Cons show ?thesis
      by (cases "m - count") auto
  qed
qed

lemma stage_lookback_big:
  "is_big_image_table b \<Longrightarrow> stage_lookback m c (pre @ b # far) = stage_lookback m c pre"
  by (induction pre arbitrary: c) (auto simp: is_big_image_table_def)

text \<open>
  C2: the label \<open>find_stage_tag_near_table\<close> returns is the text of the first stage table
  among the at most three sibling tables that precede the starting table and come
  before the first big image table met on the way back, and is empty when there is
  none. So nothing at or beyond a preceding big image table is ever read: cutting the
  previous siblings off at any big image table leaves the result unchanged.
\<close>

theorem C2_stage_lookback_stops_at_block:
  "find_stage_tag_near_table (prev, tbl, nxt) 3 =
     (case List.find looks_like_stage_table
             (take 3 (takeWhile (\<lambda>s. \<not> is_big_image_table s)
                        (filter (is_tag ''table'') prev))) of
        None \<Rightarrow> []
      | Some s \<Rightarrow> compact_text (get_text s))
   \<and> (is_big_image_table b \<longrightarrow>
        find_stage_tag_near_table (pre @ b # far, tbl, nxt) 3 =
        find_stage_tag_near_table (pre, tbl, nxt) 3)"
proof (intro conjI impI)
  show "find_stage_tag_near_table (prev, tbl, nxt) 3 =
     (case List.find looks_like_stage_table
             (take 3 (takeWhile (\<lambda>s. \<not> is_big_image_table s)
                        (filter (is_tag ''table'') prev))) of
        None \<Rightarrow> []
      | Some s \<Rightarrow> compact_text (get_text s))"
    using stage_lookback_take [of 0 3 prev] by (simp add: find_stage_tag_near_table_def)
next
  assume "is_big_image_table b"
  then show "find_stage_tag_near_table (pre @ b # far, tbl, nxt) 3 =
        find_stage_tag_near_table (pre, tbl, nxt) 3"
    by (simp add: find_stage_tag_near_table_def stage_lookback_big)
qed

theorem C2_stage_lookback_stops_at_block_witness:
  "is_big_image_table big_tbl \<and> looks_like_stage_table stage_tbl \<and>
   find_stage_tag_near_table ([Text ''  '', caption_tbl, big_tbl, stage_tbl], big_tbl, []) 3 = [] \<and>
   find_stage_tag_near_table ([Text ''  '', caption_tbl, stage_tbl, big_tbl], big_tbl, []) 3 = ''Male''"
proof -
  have b: "is_big_image_table big_tbl" and s: "looks_like_stage_table stage_tbl"
    by code_simp+
  have far: "find_stage_tag_near_table ([Text ''  '', caption_tbl], big_tbl, []) 3 = []"
    by code_simp
  have near: "find_stage_tag_near_table ([Text ''  '', caption_tbl, stage_tbl], big_tbl, []) 3 = ''Male''"
    by code_simp
  from C2_stage_lookback_stops_at_block [of "[]" big_tbl "[]" big_tbl "[Text ''  '', caption_tbl]" "[stage_tbl]"]
       C2_stage_lookback_stops_at_block [of "[]" big_tbl "[]" big_tbl "[Text ''  '', caption_tbl, stage_tbl]" "[]"]
       b s far near
  show ?thesis by simp
qed

section \<open>Matching ignores case\<close>

text \<open>
  For texts over the code points 0 to 255, and with the case of a text changed character
  by character: two texts with the same \<open>lower\<close> get the same label.
\<close>

lemma lower_char_idem: "lower_char (lower_char c) = lower_char c"
  unfolding lower_char_def cp_def Let_def
  by (auto simp: of_char_of split: if_splits)

lemma is_word_lower: "is_word (lower_char c) = is_word c"
  unfolding is_word_def lower_char_def cp_def Let_def
  by (auto simp: of_char_of split: if_splits)

lemma is_space_lower: "is_space (lower_char c) = is_space c"
  unfolding is_space_def lower_char_def cp_def Let_def
  by (auto simp: of_char_of split: if_splits)

lemma item_match_lower: "item_match it (lower_char c) = item_match it c"
  by (cases it) (simp_all add: is_word_lower is_space_lower lower_char_idem)

lemma in_set_lower: "in_set cs (lower_char c) = in_set cs c"
  by (simp add: in_set_def item_match_lower)

lemma same_case_length: "lower t = lower t' \<Longrightarrow> length t = length t'"
  unfolding lower_def by (rule map_eq_imp_length_eq)

lemma same_case_nth:
  "lower t = lower t' \<Longrightarrow> i < length t \<Longrightarrow> lower_char (t ! i) = lower_char (t' ! i)"
  unfolding lower_def by (metis length_map nth_map)

lemma same_case_word:
  assumes "lower t = lower t'" and "i < length t"
  shows "is_word (t ! i) = is_word (t' ! i)"
  using same_case_nth [OF assms] is_word_lower by metis

lemma same_case_in_set:
  assumes "lower t = lower t'" and "i < length t"
  shows "in_set cs (t ! i) = in_set cs (t' ! i)"
  using same_case_nth [OF assms] in_set_lower by metis

lemma same_case_boundary:
  assumes "lower t = lower t'"
  shows "at_boundary t i = at_boundary t' i"
proof -
  have len: "length t = length t'" using assms by (rule same_case_length)
  have a: "(0 < i \<and> i \<le> length t \<and> is_word (t ! (i - 1))) =
           (0 < i \<and> i \<le> length t' \<and> is_word (t' ! (i - 1)))"
    using same_case_word [OF assms, of "i - 1"] len by (cases i) auto
  have b: "(i < length t \<and> is_word (t ! i)) = (i < length t' \<and> is_word (t' ! i))"
    using same_case_word [OF assms, of i] len by auto
  from a b show ?thesis by (simp add: at_boundary_def)
qed

lemma takeWhile_lower:
  "length (takeWhile (in_set cs) xs) = length (takeWhile (in_set cs) (map lower_char xs))"
  by (induction xs) (simp_all add: in_set_lower)

lemma same_case_run:
  assumes "lower t = lower t'"
  shows "length (takeWhile (in_set cs) (drop i t)) = length (takeWhile (in_set cs) (drop i t'))"
proof -
  have "map lower_char (drop i t) = map lower_char (drop i t')"
    using assms by (simp add: lower_def drop_map [symmetric])
  then show ?thesis
    using takeWhile_lower [of cs "drop i t"] takeWhile_lower [of cs "drop i t'"] by simp
qed

lemma same_case_ends:
  assumes "lower t = lower t'"
  shows "ends r t i = ends r t' i"
proof (induction r arbitrary: i)
  case (Lit c)
  show ?case
    using same_case_nth [OF assms, of i] same_case_length [OF assms] by auto
next
  case (In cs)
  show ?case
    using same_case_in_set [OF assms, of i cs] same_case_length [OF assms] by auto
next
  case Bnd
  show ?case by (simp add: same_case_boundary [OF assms])
next
  case (Seq a b)
  have "ends b t = ends b t'" using Seq.IH(2) by (intro ext)
  with Seq.IH(1) show ?case by simp
next
  case (StarIn cs)
  show ?case by (simp add: same_case_run [OF assms])
qed simp_all

lemma same_case_search:
  assumes "lower t = lower t'"
  shows "search r t = search r t'"
  by (simp add: search_def same_case_ends [OF assms] same_case_length [OF assms])

lemma match_threat_same_case:
  assumes "lower t = lower t'"
  shows "match_threat_in_text t = match_threat_in_text t'"
  by (simp add: match_threat_in_text_def same_case_search [OF assms])

lemma lower_lower: "lower (lower t) = lower t"
  by (simp add: lower_def lower_char_idem)

section \<open>The labels a status can be\<close>

lemma threat_labels: "map fst THREAT_VARIANTS = CATEGORY_LABELS"
  by (simp add: THREAT_VARIANTS_def CATEGORY_LABELS_def)

lemma find_in_set: "List.find P xs = Some x \<Longrightarrow> x \<in> set xs"
  by (auto simp: find_Some_iff)

lemma variant_label: "(c, ps) \<in> set THREAT_VARIANTS \<Longrightarrow> c \<in> set CATEGORY_LABELS"
  using threat_labels by (metis fst_conv image_eqI set_map)

lemma match_threat_label: "match_threat_in_text t \<in> set ([] # CATEGORY_LABELS)"
  by (auto simp: match_threat_in_text_def split: option.splits dest!: find_in_set variant_label)

lemma marked_label_label: "marked_label t \<in> set ([] # CATEGORY_LABELS)"
  by (auto simp: marked_label_def split: option.splits dest!: find_in_set variant_label)

lemma first_nonempty_label:
  "(\<And>x. f x \<in> set ([] # L)) \<Longrightarrow> first_nonempty f xs \<in> set ([] # L)"
  by (induction xs) (auto simp: Let_def)

lemma row_status_label: "row_status tr \<in> set ([] # CATEGORY_LABELS)"
  using match_threat_label by (auto simp: row_status_def Let_def)

lemma find_status_label: "find_status_in_table tb \<in> set ([] # CATEGORY_LABELS)"
  using first_nonempty_label [of row_status CATEGORY_LABELS, OF row_status_label]
  by (auto simp: find_status_in_table_def)

lemma sibling_status_label: "sibling_status k sibs \<in> set ([] # CATEGORY_LABELS)"
  using find_status_label by (induction sibs arbitrary: k) (auto simp: Let_def)

lemma header_status_label: "header_status l \<in> set ([] # CATEGORY_LABELS)"
  using find_status_label sibling_status_label marked_label_label
  by (auto simp: header_status_def Let_def)

lemma find_threat_status_label: "find_threat_status soup \<in> set ([] # CATEGORY_LABELS)"
proof -
  have a: "first_nonempty header_status xs \<in> set ([] # CATEGORY_LABELS)" for xs
    by (rule first_nonempty_label) (rule header_status_label)
  have b: "first_nonempty (\<lambda>l. find_status_in_table (fst (snd l))) xs \<in> set ([] # CATEGORY_LABELS)"
    for xs :: "loc list"
    by (rule first_nonempty_label) (rule find_status_label)
  show ?thesis
    unfolding find_threat_status_def Let_def using a b by (simp del: set_simps)
qed

section \<open>Unreadable files (C7)\<close>

lemma unreadable_no_rows:
  "fst (read_html_file f) = None \<Longrightarrow> fst (parse_file parser f) = []"
  by (cases "read_html_file f") (auto simp: parse_file_def)

lemma unreadable_no_records:
  "fst (read_html_file f) = None \<Longrightarrow> fst (file_records parser f) = []"
  using unreadable_no_rows [of f parser]
  by (cases "parse_file parser f") (auto simp: file_records_def Let_def keep_jpg_def)

lemma concat_map_filter_nonempty:
  "(\<And>x. x \<in> set xs \<Longrightarrow> \<not> P x \<Longrightarrow> F x = []) \<Longrightarrow>
   concat (map F (filter P xs)) = concat (map F xs)"
  by (induction xs) auto

lemma main_records_readable:
  "main_records parser files =
   main_records parser (filter (\<lambda>g. fst (read_html_file g) \<noteq> None) files)"
proof -
  have "concat (map (\<lambda>f. fst (file_records parser f))
          (filter (\<lambda>g. fst (read_html_file g) \<noteq> None) (sort_key path files))) =
        concat (map (\<lambda>f. fst (file_records parser f)) (sort_key path files))"
    by (rule concat_map_filter_nonempty) (simp add: unreadable_no_records)
  then show ?thesis
    by (simp add: main_records_def filter_sort)
qed

text \<open>
  C7: \<open>read_html_file\<close> returns the UTF-8 text when that read succeeds, the latin-1 text
  when the UTF-8 read raises \<open>UnicodeDecodeError\<close> and the latin-1 read succeeds, and in
  every other case prints an error naming the path and returns \<open>None\<close>. Then \<open>parse_file\<close>
  returns no rows for the file, and the records of a run are those of the run on the
  readable files alone: an unreadable file is skipped and the others are unaffected.
\<close>

theorem C7_read_fallback_and_skip:
  "(as_utf8 f = Content s \<longrightarrow> read_html_file f = (Some s, []))
   \<and> (as_utf8 f = UnicodeDecodeError \<and> as_latin1 f = Content s \<longrightarrow>
        read_html_file f = (Some s, []))
   \<and> (as_utf8 f = OtherException \<or>
        (as_utf8 f = UnicodeDecodeError \<and> (\<forall>t. as_latin1 f \<noteq> Content t)) \<longrightarrow>
        read_html_file f = (None, [ErrorReading (path f)]))
   \<and> (fst (read_html_file f) = None \<longrightarrow> fst (parse_file parser f) = [])
   \<and> main_records parser files =
       main_records parser (filter (\<lambda>g. fst (read_html_file g) \<noteq> None) files)"
proof (intro conjI impI)
  show "main_records parser files =
       main_records parser (filter (\<lambda>g. fst (read_html_file g) \<noteq> None) files)"
    by (rule main_records_readable)
next
  assume "fst (read_html_file f) = None"
  then show "fst (parse_file parser f) = []" by (rule unreadable_no_rows)
next
  assume "as_utf8 f = OtherException \<or>
        (as_utf8 f = UnicodeDecodeError \<and> (\<forall>t. as_latin1 f \<noteq> Content t))"
  then show "read_html_file f = (None, [ErrorReading (path f)])"
    by (auto simp: read_html_file_def split: read_outcome.splits)
qed (simp_all add: read_html_file_def)

theorem C7_read_fallback_and_skip_witness:
  "read_html_file plain_file = (Some ''plain'', []) \<and>
   read_html_file gallery_file = (Some ''gallery'', []) \<and>
   read_html_file broken_file = (None, [ErrorReading ''/photos/Gruiformes/Fotos_Broken.html'']) \<and>
   fst (parse_file sample_parser broken_file) = [] \<and>
   main_records sample_parser [gallery_file, broken_file] = main_records sample_parser [gallery_file]"
proof -
  have p: "as_utf8 plain_file = Content ''plain''"
    and g: "as_utf8 gallery_file = UnicodeDecodeError \<and> as_latin1 gallery_file = Content ''gallery''"
    and b: "as_utf8 broken_file = OtherException"
           "path broken_file = ''/photos/Gruiformes/Fotos_Broken.html''"
    by (simp_all add: plain_file_def gallery_file_def broken_file_def)
  note t = C7_read_fallback_and_skip
  have rp: "read_html_file plain_file = (Some ''plain'', [])"
    using t [of plain_file "''plain''"] p by simp
  have rg: "read_html_file gallery_file = (Some ''gallery'', [])"
    using t [of gallery_file "''gallery''"] g by simp
  have rb: "read_html_file broken_file = (None, [ErrorReading ''/photos/Gruiformes/Fotos_Broken.html''])"
    using t [of broken_file] b by simp
  have pb: "fst (parse_file sample_parser broken_file) = []"
    using t [of broken_file _ sample_parser] rb by simp
  have m: "main_records sample_parser [gallery_file, broken_file] = main_records sample_parser [gallery_file]"
    using t [of broken_file "[]" sample_parser "[gallery_file, broken_file]"] rg rb by simp
  from rp rg rb pb m show ?thesis by simp
qed

section \<open>Runs that write nothing (C6)\<close>

text \<open>
  C6: with no matching file the run prints that none was found, returns exit code 0 and
  writes no workbook; with files that yield no record it prints, last, that no image
  record was found, returns exit code 0 and writes no workbook.
\<close>

theorem C6_clean_exit_without_output:
  "(files = [] \<longrightarrow>
      main parser cwd files = \<lparr>exit_code = 0, printed = [NoMatchingFiles], workbook = None\<rparr>)
   \<and> (files \<noteq> [] \<and> main_records parser files = [] \<longrightarrow>
        exit_code (main parser cwd files) = 0 \<and>
        workbook (main parser cwd files) = None \<and>
        last (printed (main parser cwd files)) = NoImageRecords)"
  by (simp add: main_def Let_def)

theorem C6_clean_exit_without_output_witness:
  "main sample_parser ''/photos/Gruiformes'' [] =
     \<lparr>exit_code = 0, printed = [NoMatchingFiles], workbook = None\<rparr> \<and>
   main_records sample_parser [plain_file, broken_file] = [] \<and>
   exit_code (main sample_parser ''/photos/Gruiformes'' [plain_file, broken_file]) = 0 \<and>
   workbook (main sample_parser ''/photos/Gruiformes'' [plain_file, broken_file]) = None \<and>
   last (printed (main sample_parser ''/photos/Gruiformes'' [plain_file, broken_file])) = NoImageRecords"
proof -
  have e: "main_records sample_parser [plain_file, broken_file] = []"
    by code_simp
  from C6_clean_exit_without_output [of "[]" sample_parser "''/photos/Gruiformes''"]
       C6_clean_exit_without_output [of "[plain_file, broken_file]" sample_parser "''/photos/Gruiformes''"]
       e
  show ?thesis by simp
qed

section \<open>Documents without matching tables (C8)\<close>

lemma big_row_empty: "\<not> is_big_image_table (fst (snd l)) \<Longrightarrow> big_row l = []"
  by (simp add: big_row_def)

lemma small_rows_empty:
  "\<not> (\<exists>c \<in> set (descendants (fst (snd l))). is_ffn_cell c) \<Longrightarrow> small_rows l = []"
  by (auto simp: small_rows_def Let_def filter_empty_conv)

text \<open>
  C8: when no table of the document is a big image block and none has an \<open>ffn.gif\<close> cell
  below it, \<open>parse_big_blocks\<close> and \<open>parse_small_ffn_tables\<close> return the empty list, and so
  does \<open>parse_file\<close> on a file that reads as this document. The functions are total: no
  branch of the source raises on a parsed document.
\<close>

theorem C8_no_matching_tables_no_rows:
  assumes "\<forall>l \<in> set (find_all_loc ''table'' soup).
             \<not> is_big_image_table (fst (snd l)) \<and>
             \<not> (\<exists>c \<in> set (descendants (fst (snd l))). is_ffn_cell c)"
  shows "parse_big_blocks soup = [] \<and> parse_small_ffn_tables soup = [] \<and>
         (parser html = soup \<and> fst (read_html_file f) = Some html \<longrightarrow>
            fst (parse_file parser f) = [])"
proof -
  have b: "parse_big_blocks soup = []"
    using assms by (simp add: parse_big_blocks_def big_row_empty)
  have s: "parse_small_ffn_tables soup = []"
    using assms by (simp add: parse_small_ffn_tables_def small_rows_empty)
  from b s show ?thesis
    by (cases "read_html_file f") (auto simp: parse_file_def Let_def)
qed

theorem C8_no_matching_tables_no_rows_witness:
  "map (\<lambda>l. fst (snd l)) (find_all_loc ''table'' plain_soup) = [caption_tbl] \<and>
   parse_big_blocks plain_soup = [] \<and> parse_small_ffn_tables plain_soup = [] \<and>
   fst (parse_file sample_parser plain_file) = []"
proof -
  have t: "map (\<lambda>l. fst (snd l)) (find_all_loc ''table'' plain_soup) = [caption_tbl]"
    by code_simp
  have h: "\<forall>l \<in> set (find_all_loc ''table'' plain_soup).
             \<not> is_big_image_table (fst (snd l)) \<and>
             \<not> (\<exists>c \<in> set (descendants (fst (snd l))). is_ffn_cell c)"
    by code_simp
  have r: "sample_parser ''plain'' = plain_soup \<and> fst (read_html_file plain_file) = Some ''plain''"
    by code_simp
  from C8_no_matching_tables_no_rows [OF h, of sample_parser "''plain''" plain_file] t r
  show ?thesis by simp
qed

section \<open>What the parsers put into a row\<close>

lemma endswith_jpg_Some: "endswith_jpg v \<Longrightarrow> \<exists>s. v = Some s \<and> s \<noteq> [] \<and> endswith s ''.jpg''"
  by (cases v) (auto simp: endswith_jpg_def)

lemma extract_thumb_jpg:
  "fst (extract_first_img_and_anchor t) = Some s \<Longrightarrow> endswith_jpg (Some s)"
  by (auto simp: extract_first_img_and_anchor_def Let_def split: option.splits if_splits)

lemma big_row_fields:
  assumes "r \<in> set (big_row l)"
  shows "endswith_jpg (r ''Thumbnail_File'') \<and> r ''Is_Small_ffn_gif'' = Some []"
proof (cases "extract_first_img_and_anchor (fst (snd l))")
  case (Pair thumb large)
  show ?thesis
  proof (cases thumb)
    case None
    with assms Pair show ?thesis
      by (auto simp: big_row_def truthy_def split: if_splits)
  next
    case (Some s)
    with Pair have "endswith_jpg (Some s)"
      using extract_thumb_jpg [of "fst (snd l)" s] by simp
    with assms Pair Some show ?thesis
      by (auto simp: big_row_def truthy_def or_empty_def Let_def split: if_splits)
  qed
qed

lemma ffn_cells_rows_fields:
  "r \<in> set (ffn_cells_rows lt stage k tds) \<Longrightarrow>
   endswith_jpg (r ''Thumbnail_File'') \<and> r ''Is_Small_ffn_gif'' = Some ''Y'' \<and>
   r ''Camera_Equipment'' = Some []"
proof (induction tds arbitrary: k)
  case Nil
  then show ?case by simp
next
  case (Cons td tds)
  from Cons.prems show ?case
    by (auto simp: Let_def truthy_def or_empty_def dest: Cons.IH
             split: if_splits option.splits)
qed

lemma ffn_table_rows_fields:
  "r \<in> set (ffn_table_rows lt stage trs) \<Longrightarrow>
   endswith_jpg (r ''Thumbnail_File'') \<and> r ''Is_Small_ffn_gif'' = Some ''Y'' \<and>
   r ''Camera_Equipment'' = Some []"
proof (induction trs arbitrary: lt)
  case Nil
  then show ?case by simp
next
  case (Cons tr trs)
  from Cons.prems show ?case
    by (auto simp: Let_def dest: Cons.IH ffn_cells_rows_fields split: if_splits)
qed

lemma parse_big_fields:
  "r \<in> set (parse_big_blocks soup) \<Longrightarrow>
   endswith_jpg (r ''Thumbnail_File'') \<and> r ''Is_Small_ffn_gif'' = Some []"
  by (auto simp: parse_big_blocks_def dest: big_row_fields)

lemma parse_small_fields:
  "r \<in> set (parse_small_ffn_tables soup) \<Longrightarrow>
   endswith_jpg (r ''Thumbnail_File'') \<and> r ''Is_Small_ffn_gif'' = Some ''Y'' \<and>
   r ''Camera_Equipment'' = Some []"
  by (auto simp: parse_small_ffn_tables_def small_rows_def Let_def
           dest: ffn_table_rows_fields split: if_splits)

section \<open>Where a record of a run comes from\<close>

lemma file_records_origin:
  assumes "r \<in> set (fst (file_records parser f))"
  shows "\<exists>html sp r0. fst (read_html_file f) = Some html \<and>
           r0 \<in> set (parse_big_blocks (parser html) @ parse_small_ffn_tables (parser html)) \<and>
           endswith_jpg (r0 ''Thumbnail_File'') \<and>
           r = r_out sp (r0(''Threat_Status'' \<mapsto> find_threat_status (parser html)))"
proof (cases "read_html_file f")
  case (Pair h out)
  show ?thesis
  proof (cases h)
    case None
    with Pair assms show ?thesis
      by (auto simp: file_records_def parse_file_def Let_def keep_jpg_def split: if_splits)
  next
    case (Some html)
    with Pair assms show ?thesis
      apply (auto simp: file_records_def parse_file_def Let_def keep_jpg_def split: if_splits)
       apply blast+
      done
  qed
qed

lemma main_records_origin:
  assumes "r \<in> set (main_records parser files)"
  shows "\<exists>f \<in> set files. r \<in> set (fst (file_records parser f))"
  using assms by (auto simp: main_records_def)

lemma r_out_threat:
  "r_out sp (r0(''Threat_Status'' \<mapsto> t)) ''Threat_Status'' = Some t"
  by (simp add: r_out_def get_or_empty_def)

lemma r_out_other:
  "r_out sp (r0(''Threat_Status'' \<mapsto> t)) ''Thumbnail_Filename'' = Some (get_or_empty r0 ''Thumbnail_File'')"
  "r_out sp (r0(''Threat_Status'' \<mapsto> t)) ''Slide'' = Some (get_or_empty r0 ''Is_Small_ffn_gif'')"
  "r_out sp (r0(''Threat_Status'' \<mapsto> t)) ''Equipment'' = Some (get_or_empty r0 ''Camera_Equipment'')"
  by (simp_all add: r_out_def get_or_empty_def)

section \<open>Thumbnails (C1)\<close>

text \<open>
  C1: every row of \<open>parse_big_blocks\<close> and of \<open>parse_small_ffn_tables\<close> has a
  \<open>Thumbnail_File\<close> that passes \<open>endswith_jpg\<close>, and every record of a run, which is what
  the data frame is built from, has a \<open>Thumbnail_Filename\<close> that ends in \<open>.jpg\<close>.
\<close>

theorem C1_thumbnails_end_in_jpg:
  "(\<forall>r \<in> set (parse_big_blocks soup). endswith_jpg (r ''Thumbnail_File'')) \<and>
   (\<forall>r \<in> set (parse_small_ffn_tables soup). endswith_jpg (r ''Thumbnail_File'')) \<and>
   (\<forall>r \<in> set (main_records parser files).
       \<exists>s. r ''Thumbnail_Filename'' = Some s \<and> endswith s ''.jpg'')"
proof (intro conjI ballI)
  fix r assume "r \<in> set (parse_big_blocks soup)"
  then show "endswith_jpg (r ''Thumbnail_File'')" by (simp add: parse_big_fields)
next
  fix r assume "r \<in> set (parse_small_ffn_tables soup)"
  then show "endswith_jpg (r ''Thumbnail_File'')" by (simp add: parse_small_fields)
next
  fix r assume "r \<in> set (main_records parser files)"
  then obtain f where "r \<in> set (fst (file_records parser f))"
    using main_records_origin by blast
  then obtain html sp r0 where
    j: "endswith_jpg (r0 ''Thumbnail_File'')" and
    r: "r = r_out sp (r0(''Threat_Status'' \<mapsto> find_threat_status (parser html)))"
    using file_records_origin by blast
  from j obtain s where "r0 ''Thumbnail_File'' = Some s" "endswith s ''.jpg''"
    using endswith_jpg_Some by blast
  with r show "\<exists>s. r ''Thumbnail_Filename'' = Some s \<and> endswith s ''.jpg''"
    by (simp add: r_out_other get_or_empty_def)
qed

section \<open>Threat status of a file (C9)\<close>

text \<open>
  C9: for every file there is one value, the empty string or one of the four labels of
  \<open>CATEGORY_LABELS\<close>, that is the \<open>Threat_Status\<close> of every row \<open>parse_file\<close> returns for
  the file and of every record the run builds from it.
\<close>

theorem C9_threat_status_uniform:
  "\<exists>t \<in> set ([] # CATEGORY_LABELS).
     (\<forall>r \<in> set (fst (parse_file parser f)). r ''Threat_Status'' = Some t) \<and>
     (\<forall>r \<in> set (fst (file_records parser f)). r ''Threat_Status'' = Some t)"
proof (cases "read_html_file f")
  case (Pair h out)
  show ?thesis
  proof (cases h)
    case None
    with Pair have "fst (parse_file parser f) = []" "fst (file_records parser f) = []"
      by (simp_all add: unreadable_no_rows unreadable_no_records)
    then show ?thesis by auto
  next
    case (Some html)
    let ?t = "find_threat_status (parser html)"
    have a: "\<forall>r \<in> set (fst (parse_file parser f)). r ''Threat_Status'' = Some ?t"
      using Pair Some by (auto simp: parse_file_def Let_def)
    have b: "\<forall>r \<in> set (fst (file_records parser f)). r ''Threat_Status'' = Some ?t"
    proof
      fix r assume "r \<in> set (fst (file_records parser f))"
      then obtain html' sp r0 where
        "fst (read_html_file f) = Some html'"
        "r = r_out sp (r0(''Threat_Status'' \<mapsto> find_threat_status (parser html')))"
        using file_records_origin by blast
      with Pair Some show "r ''Threat_Status'' = Some ?t"
        by (simp add: r_out_threat)
    qed
    from a b find_threat_status_label [of "parser html"] show ?thesis by blast
  qed
qed

section \<open>The small-thumbnail flag (C10)\<close>

text \<open>
  C10: the rows of \<open>parse_big_blocks\<close> carry the flag \<open>""\<close>, those of
  \<open>parse_small_ffn_tables\<close> the flag \<open>"Y"\<close> and an empty camera text. Every record of a run
  is built from a row of one of the two parsers of a readable file: from a row of
  \<open>parse_big_blocks\<close>, and then its \<open>Slide\<close> is \<open>""\<close>, or from a row of
  \<open>parse_small_ffn_tables\<close>, and then its \<open>Slide\<close> is \<open>"Y"\<close> and its \<open>Equipment\<close> is empty. So
  \<open>Slide\<close> has two values and is \<open>"Y"\<close> exactly for the records of the small thumbnails.
\<close>

theorem C10_slide_flag_marks_small_thumbnails:
  "(\<forall>r \<in> set (parse_big_blocks soup). r ''Is_Small_ffn_gif'' = Some []) \<and>
   (\<forall>r \<in> set (parse_small_ffn_tables soup).
       r ''Is_Small_ffn_gif'' = Some ''Y'' \<and> r ''Camera_Equipment'' = Some []) \<and>
   (\<forall>r \<in> set (main_records parser files).
       \<exists>f \<in> set files. \<exists>html sp r0.
         fst (read_html_file f) = Some html \<and>
         r = r_out sp (r0(''Threat_Status'' \<mapsto> find_threat_status (parser html))) \<and>
         (r0 \<in> set (parse_big_blocks (parser html)) \<and> r ''Slide'' = Some [] \<or>
          r0 \<in> set (parse_small_ffn_tables (parser html)) \<and> r ''Slide'' = Some ''Y'' \<and>
          r ''Equipment'' = Some []))"
proof (intro conjI ballI)
  fix r assume "r \<in> set (parse_big_blocks soup)"
  then show "r ''Is_Small_ffn_gif'' = Some []" by (simp add: parse_big_fields)
next
  fix r assume "r \<in> set (parse_small_ffn_tables soup)"
  then show "r ''Is_Small_ffn_gif'' = Some ''Y''" "r ''Camera_Equipment'' = Some []"
    by (simp_all add: parse_small_fields)
next
  fix r assume "r \<in> set (main_records parser files)"
  then obtain f where f: "f \<in> set files" "r \<in> set (fst (file_records parser f))"
    using main_records_origin by blast
  then obtain html sp r0 where
    h: "fst (read_html_file f) = Some html" and
    o: "r0 \<in> set (parse_big_blocks (parser html) @ parse_small_ffn_tables (parser html))" and
    r: "r = r_out sp (r0(''Threat_Status'' \<mapsto> find_threat_status (parser html)))"
    using file_records_origin by blast
  from o have "r0 \<in> set (parse_big_blocks (parser html)) \<and> r ''Slide'' = Some [] \<or>
          r0 \<in> set (parse_small_ffn_tables (parser html)) \<and> r ''Slide'' = Some ''Y'' \<and>
          r ''Equipment'' = Some []"
    using parse_big_fields [of r0 "parser html"] parse_small_fields [of r0 "parser html"] r
    by (auto simp: r_out_other get_or_empty_def)
  with f h r show "\<exists>f \<in> set files. \<exists>html sp r0.
         fst (read_html_file f) = Some html \<and>
         r = r_out sp (r0(''Threat_Status'' \<mapsto> find_threat_status (parser html))) \<and>
         (r0 \<in> set (parse_big_blocks (parser html)) \<and> r ''Slide'' = Some [] \<or>
          r0 \<in> set (parse_small_ffn_tables (parser html)) \<and> r ''Slide'' = Some ''Y'' \<and>
          r ''Equipment'' = Some [])"
    by blast
qed

section \<open>The workbook (C5)\<close>

lemma r_out_columns: "c \<in> set COLUMNS \<Longrightarrow> r_out sp r c \<noteq> None"
  by (auto simp: COLUMNS_def r_out_def)

lemma main_records_columns:
  assumes "r \<in> set (main_records parser files)" and "c \<in> set COLUMNS"
  shows "r c \<noteq> None"
proof -
  from assms(1) obtain f where "r \<in> set (fst (file_records parser f))"
    using main_records_origin by blast
  then obtain sp r1 where "r = r_out sp r1"
    using file_records_origin by blast
  with assms(2) show ?thesis by (simp add: r_out_columns)
qed

lemma stored_column: "c \<in> set COLUMNS \<Longrightarrow> stored c = c"
  by (auto simp: COLUMNS_def stored_def)

lemma to_excel_written:
  assumes "to_excel columns records = Inr w"
  shows "w = (\<lambda>(r, c).
        if c = 0 \<or> length columns < c then None
        else if r = 1 then Some (stored (columns ! (c - 1)))
        else if 2 \<le> r \<and> r - 2 < length records
        then map_option stored ((records ! (r - 2)) (columns ! (c - 1)))
        else None)"
  using assms by (simp add: to_excel_def split: if_splits)

lemma main_completed:
  assumes "main_records parser files \<noteq> []" and "exit_code (main parser cwd files) = 0"
  shows "\<exists>w. to_excel COLUMNS (main_records parser files) = Inr w \<and>
           workbook (main parser cwd files) =
             Some (path_join cwd (get_current_folder_name cwd @ ''_Image_Listing.xlsx''),
                   ''Images'', insert_rows 1 (insert_cols 1 w))"
proof -
  have f: "files \<noteq> []"
    using assms(1) by (auto simp: main_records_def)
  show ?thesis
  proof (cases "to_excel COLUMNS (main_records parser files)")
    case (Inl e)
    with assms f show ?thesis by (simp add: main_def Let_def)
  next
    case (Inr w)
    with assms f show ?thesis by (simp add: main_def Let_def)
  qed
qed

lemma main_completes_iff:
  assumes "main_records parser files \<noteq> []"
  shows "exit_code (main parser cwd files) = 0 \<longleftrightarrow>
           length (main_records parser files) \<le> 1048576 \<and>
           \<not> list_ex (list_ex bad_value) (map (\<lambda>r. map r COLUMNS) (main_records parser files))"
proof -
  have f: "files \<noteq> []"
    using assms by (auto simp: main_records_def)
  have c: "\<not> 16384 < length COLUMNS" "\<not> list_ex (\<lambda>c. bad_value (Some c)) COLUMNS"
    by (simp_all add: COLUMNS_def bad_value_def stored_def is_illegal_char_def cp_def)
  show ?thesis
    using assms f c by (auto simp: main_def Let_def to_excel_def not_less)
qed

text \<open>
  C5: a run with at least one record that completes (exit code 0) has written one
  workbook, at the path of the current directory joined with the folder name followed
  by \<open>_Image_Listing.xlsx\<close>, with the sheet \<open>Images\<close>. In the sheet row 1 and column A have
  no cell, row 2 holds the column names from column B on, and row \<open>i + 3\<close> holds the
  values of record \<open>i\<close> under them, as the worksheet stores them, every one present.
\<close>

theorem C5_workbook_layout:
  assumes "main_records parser files \<noteq> []" and "exit_code (main parser cwd files) = 0"
  shows "\<exists>ws.
     workbook (main parser cwd files) =
       Some (path_join cwd (get_current_folder_name cwd @ ''_Image_Listing.xlsx''), ''Images'', ws) \<and>
     (\<forall>c. ws (1, c) = None) \<and>
     (\<forall>r. ws (r, 1) = None) \<and>
     (\<forall>j < length COLUMNS. ws (2, j + 2) = Some (COLUMNS ! j)) \<and>
     (\<forall>i < length (main_records parser files). \<forall>j < length COLUMNS.
        ws (i + 3, j + 2) = map_option stored ((main_records parser files ! i) (COLUMNS ! j)) \<and>
        ws (i + 3, j + 2) \<noteq> None)"
proof -
  let ?recs = "main_records parser files"
  from main_completed [OF assms] obtain w where
    t: "to_excel COLUMNS ?recs = Inr w" and
    wb: "workbook (main parser cwd files) =
       Some (path_join cwd (get_current_folder_name cwd @ ''_Image_Listing.xlsx''), ''Images'',
             insert_rows 1 (insert_cols 1 w))"
    by blast
  note w = to_excel_written [OF t]
  let ?ws = "insert_rows 1 (insert_cols 1 w)"
  have r1: "\<forall>c. ?ws (1, c) = None"
    by (simp add: insert_rows_def)
  have c1: "\<forall>r. ?ws (r, 1) = None"
    by (simp add: insert_rows_def insert_cols_def w)
  have h: "\<forall>j < length COLUMNS. ?ws (2, j + 2) = Some (COLUMNS ! j)"
    by (simp add: insert_rows_def insert_cols_def w stored_column)
  have d: "\<forall>i < length ?recs. \<forall>j < length COLUMNS.
        ?ws (i + 3, j + 2) = map_option stored ((?recs ! i) (COLUMNS ! j)) \<and>
        ?ws (i + 3, j + 2) \<noteq> None"
  proof (intro allI impI)
    fix i j assume i: "i < length ?recs" and j: "j < length COLUMNS"
    have e: "?ws (i + 3, j + 2) = map_option stored ((?recs ! i) (COLUMNS ! j))"
      using i j by (simp add: insert_rows_def insert_cols_def w)
    have "(?recs ! i) (COLUMNS ! j) \<noteq> None"
      using i j main_records_columns [of "?recs ! i" parser files "COLUMNS ! j"] by simp
    with e show "?ws (i + 3, j + 2) = map_option stored ((?recs ! i) (COLUMNS ! j)) \<and>
        ?ws (i + 3, j + 2) \<noteq> None"
      by simp
  qed
  from wb r1 c1 h d show ?thesis by blast
qed

section \<open>The sample folder\<close>

lemma gallery_rows:
  "map (\<lambda>r. map r COLUMNS) (fst (file_records sample_parser gallery_file)) =
   [[Some [], Some ''Aramus'', Some [], Some [], Some [], Some ''th1.jpg'',
     Some ''big1.jpg'', Some ''Canon EOS'', Some ''Male'', Some [], Some [],
     Some [], Some [], Some ''Chubut 2010'', Some ''Vulnerable''],
    [Some [], Some ''Aramus'', Some [], Some ''Y'', Some [], Some ''t2.jpg'',
     Some ''b2.jpg'', Some [], Some [], Some [], Some [], Some [], Some [],
     Some ''Salta'', Some ''Vulnerable'']]"
  by code_simp

lemma sample_sorted: "sort_key path sample_files = [gallery_file, broken_file, plain_file]"
  by code_simp

lemma sample_others:
  "fst (file_records sample_parser broken_file) = [] \<and>
   fst (file_records sample_parser plain_file) = []"
  by code_simp

lemma sample_main_records:
  "main_records sample_parser sample_files = fst (file_records sample_parser gallery_file)"
  by (simp add: main_records_def sample_sorted sample_others)

lemma sample_records:
  "map (\<lambda>r. map r COLUMNS) (main_records sample_parser sample_files) =
   [[Some [], Some ''Aramus'', Some [], Some [], Some [], Some ''th1.jpg'',
     Some ''big1.jpg'', Some ''Canon EOS'', Some ''Male'', Some [], Some [],
     Some [], Some [], Some ''Chubut 2010'', Some ''Vulnerable''],
    [Some [], Some ''Aramus'', Some [], Some ''Y'', Some [], Some ''t2.jpg'',
     Some ''b2.jpg'', Some [], Some [], Some [], Some [], Some [], Some [],
     Some ''Salta'', Some ''Vulnerable'']]"
  by (simp only: sample_main_records gallery_rows)

lemma sample_length: "length (main_records sample_parser sample_files) = 2"
  using arg_cong [OF sample_records, of length] by simp

lemma columns_nth:
  "COLUMNS ! 3 = ''Slide''" "COLUMNS ! 5 = ''Thumbnail_Filename''" "COLUMNS ! 7 = ''Equipment''"
  "COLUMNS ! 14 = ''Threat_Status''" "COLUMNS ! 0 = ''Species_ID''" "length COLUMNS = 15"
  by (simp_all add: COLUMNS_def)

lemma sample_cell:
  assumes "i < 2" and "j < 15"
  shows "(main_records sample_parser sample_files ! i) (COLUMNS ! j) =
         map (\<lambda>r. map r COLUMNS) (main_records sample_parser sample_files) ! i ! j"
  using assms by (simp add: sample_length columns_nth(6))

lemma sample_values:
  "(main_records sample_parser sample_files ! 0) ''Thumbnail_Filename'' = Some ''th1.jpg''"
  "(main_records sample_parser sample_files ! 1) ''Thumbnail_Filename'' = Some ''t2.jpg''"
  "(main_records sample_parser sample_files ! 0) ''Slide'' = Some []"
  "(main_records sample_parser sample_files ! 1) ''Slide'' = Some ''Y''"
  "(main_records sample_parser sample_files ! 0) ''Threat_Status'' = Some ''Vulnerable''"
  using sample_cell [of 0 5] sample_cell [of 1 5] sample_cell [of 0 3] sample_cell [of 1 3]
        sample_cell [of 0 14]
  by (simp_all add: columns_nth sample_records)


theorem C1_thumbnails_end_in_jpg_witness:
  "length (main_records sample_parser sample_files) = 2 \<and>
   (main_records sample_parser sample_files ! 1) ''Thumbnail_Filename'' = Some ''t2.jpg'' \<and>
   (\<exists>s. (main_records sample_parser sample_files ! 1) ''Thumbnail_Filename'' = Some s \<and>
        endswith s ''.jpg'')"
proof -
  have "main_records sample_parser sample_files ! 1 \<in> set (main_records sample_parser sample_files)"
    by (simp add: sample_length)
  with C1_thumbnails_end_in_jpg [of sample_soup sample_parser sample_files] sample_length sample_values(2)
  show ?thesis by blast
qed

theorem C9_threat_status_uniform_witness:
  "''Vulnerable'' \<in> set CATEGORY_LABELS \<and>
   (main_records sample_parser sample_files ! 0) ''Threat_Status'' = Some ''Vulnerable'' \<and>
   (main_records sample_parser sample_files ! 1) ''Threat_Status'' = Some ''Vulnerable''"
proof -
  let ?ms = "main_records sample_parser sample_files"
  from C9_threat_status_uniform [of sample_parser gallery_file] obtain t where
    t: "t \<in> set ([] # CATEGORY_LABELS)" and
    a: "\<forall>r \<in> set (fst (file_records sample_parser gallery_file)). r ''Threat_Status'' = Some t"
    by blast
  have m: "?ms ! 0 \<in> set ?ms" "?ms ! 1 \<in> set ?ms"
    by (simp_all add: sample_length)
  from a have "\<forall>r \<in> set ?ms. r ''Threat_Status'' = Some t"
    by (simp only: sample_main_records)
  with m have "(?ms ! 0) ''Threat_Status'' = Some t" "(?ms ! 1) ''Threat_Status'' = Some t"
    by blast+
  with sample_values(5) t show ?thesis by auto
qed

theorem C10_slide_flag_marks_small_thumbnails_witness:
  "(main_records sample_parser sample_files ! 0) ''Slide'' = Some [] \<and>
   (main_records sample_parser sample_files ! 1) ''Slide'' = Some ''Y'' \<and>
   (main_records sample_parser sample_files ! 1) ''Equipment'' = Some []"
proof -
  let ?ms = "main_records sample_parser sample_files"
  have "?ms ! 1 \<in> set ?ms" by (simp add: sample_length)
  with C10_slide_flag_marks_small_thumbnails [of sample_soup sample_parser sample_files]
  have "(?ms ! 1) ''Slide'' = Some [] \<or>
        (?ms ! 1) ''Slide'' = Some ''Y'' \<and> (?ms ! 1) ''Equipment'' = Some []"
    by blast
  with sample_values(3,4) show ?thesis by auto
qed

lemma sample_path:
  "path_join ''/photos/Gruiformes''
     (get_current_folder_name ''/photos/Gruiformes'' @ ''_Image_Listing.xlsx'') =
   ''/photos/Gruiformes/Gruiformes_Image_Listing.xlsx''"
  by code_simp

lemma sample_completes:
  "exit_code (main sample_parser ''/photos/Gruiformes'' sample_files) = 0"
proof -
  have r: "main_records sample_parser sample_files \<noteq> []"
    using sample_length by auto
  have "\<not> list_ex (list_ex bad_value)
           (map (\<lambda>r. map r COLUMNS) (main_records sample_parser sample_files))"
    unfolding sample_records
    by (simp add: bad_value_def stored_def is_illegal_char_def cp_def)
  with main_completes_iff [OF r, of "''/photos/Gruiformes''"] show ?thesis
    by (simp add: sample_length)
qed

theorem C5_workbook_layout_witness:
  "exit_code (main sample_parser ''/photos/Gruiformes'' sample_files) = 0 \<and>
   (\<exists>ws. workbook (main sample_parser ''/photos/Gruiformes'' sample_files) =
           Some (''/photos/Gruiformes/Gruiformes_Image_Listing.xlsx'', ''Images'', ws) \<and>
         ws (1, 2) = None \<and> ws (3, 1) = None \<and>
         ws (2, 2) = Some ''Species_ID'' \<and> ws (2, 7) = Some ''Thumbnail_Filename'' \<and>
         ws (3, 7) = Some ''th1.jpg'' \<and> ws (4, 5) = Some ''Y'')"
proof -
  let ?ms = "main_records sample_parser sample_files"
  have r: "?ms \<noteq> []" using sample_length by auto
  from C5_workbook_layout [OF r sample_completes] obtain ws where
    w: "workbook (main sample_parser ''/photos/Gruiformes'' sample_files) =
          Some (''/photos/Gruiformes/Gruiformes_Image_Listing.xlsx'', ''Images'', ws)" and
    r1: "\<forall>c. ws (1, c) = None" and c1: "\<forall>r. ws (r, 1) = None" and
    h: "\<forall>j < length COLUMNS. ws (2, j + 2) = Some (COLUMNS ! j)" and
    d: "\<forall>i < length ?ms. \<forall>j < length COLUMNS.
          ws (i + 3, j + 2) = map_option stored ((?ms ! i) (COLUMNS ! j)) \<and>
          ws (i + 3, j + 2) \<noteq> None"
    unfolding sample_path by blast
  have h0: "ws (2, 2) = Some ''Species_ID''"
    using h [rule_format, of 0] by (simp add: columns_nth eval_nat_numeral)
  have h5: "ws (2, 7) = Some ''Thumbnail_Filename''"
    using h [rule_format, of 5] by (simp add: columns_nth)
  have d0: "ws (3, 7) = Some ''th1.jpg''"
    using d [rule_format, of 0 5] sample_values(1)
    by (simp add: columns_nth sample_length stored_def)
  have d1: "ws (4, 5) = Some ''Y''"
    using d [rule_format, of 1 3] sample_values(4)
    by (simp add: columns_nth sample_length stored_def)
  from sample_completes w r1 c1 h0 h5 d0 d1 show ?thesis by blast
qed

text \<open>
  A run that does not complete: the camera text of the only record holds a control
  character, \<open>to_excel\<close> raises, and the run ends with exit code 1.
\<close>

lemma control_records:
  "map (\<lambda>r. map r COLUMNS) (main_records control_parser [control_file]) =
   [[Some [], Some ''Ctl'', Some [], Some [], Some [], Some ''th1.jpg'', Some ''big1.jpg'',
     Some [CHR ''C'', CHR 0x01, CHR ''E''], Some [], Some [], Some [], Some [], Some [],
     Some [], Some []]]"
  by code_simp

lemma control_character_ends_run:
  "exit_code (main control_parser ''/photos/Gruiformes'' [control_file]) = 1 \<and>
   workbook (main control_parser ''/photos/Gruiformes'' [control_file]) = None"
proof -
  let ?recs = "main_records control_parser [control_file]"
  have r: "?recs \<noteq> []"
    using arg_cong [OF control_records, of length] by auto
  have b: "list_ex (list_ex bad_value) (map (\<lambda>r. map r COLUMNS) ?recs)"
    unfolding control_records
    by (simp add: bad_value_def stored_def is_illegal_char_def cp_def)
  have c: "\<not> 16384 < length COLUMNS" "length ?recs = 1"
    using arg_cong [OF control_records, of length] by (simp_all add: COLUMNS_def)
  have "to_excel COLUMNS ?recs = Inl IllegalCharacterError"
    using b c by (simp add: to_excel_def)
  with r show ?thesis
    by (simp add: main_def Let_def)
qed

section \<open>Typing errors in a status (C3)\<close>

text \<open>The three typing errors the source names in its comments get their labels.\<close>

lemma typo_examples:
  "match_threat_in_text ''Cirtically-endagered'' = ''Critically Endangered''"
  "match_threat_in_text ''Nearth-threatened'' = ''Near-threatened''"
  "match_threat_in_text ''Near-threated'' = ''Near-threatened''"
  by code_simp+

text \<open>
  C3 asks that a text with a typing error that \<open>THREAT_VARIANTS\<close> encodes gets the
  canonical label of its category. The code does not do this for \<open>Critically Endangered\<close>:
  the text \<open>Critically-endangerd\<close> is matched by a pattern of that category (the first one,
  which allows \<open>endangerd\<close>), and so is the correct spelling, yet both get the label
  \<open>Endangered\<close>. That category is listed first in the dictionary and its pattern matches
  the second word.
\<close>

theorem C3_critically_endangered_shadowed:
  "fst (THREAT_VARIANTS ! 3) = ''Critically Endangered'' \<and>
   list_ex (\<lambda>pat. search pat ''Critically-endangerd'') (snd (THREAT_VARIANTS ! 3)) \<and>
   match_threat_in_text ''Critically-endangerd'' = ''Endangered'' \<and>
   list_ex (\<lambda>pat. search pat ''Critically Endangered'') (snd (THREAT_VARIANTS ! 3)) \<and>
   match_threat_in_text ''Critically Endangered'' = ''Endangered''"
  by code_simp

end
